theory Spec2Isabelle
  imports Complex_Main
begin

section \<open>The tracking schema (supabase/migrations/20260204000002_add_gps_tracking.sql)\<close>

text \<open>
  Keys are opaque: only equality of a \<open>uuid\<close> is ever used. A \<open>decimal\<close> value is a real
  number (every decimal numeral is one); a column of type \<open>decimal(p, s)\<close> holds only
  numbers of at most \<open>s\<close> decimal places and \<open>p - s\<close> digits before the point, and a
  value stored into it is rounded or refused accordingly. A \<open>timestamptz\<close> is a real number of minutes since the
  epoch, so that adding an interval of \<open>m\<close> minutes is \<open>+ m\<close>. A nullable column is an
  \<open>option\<close>, \<open>None\<close> being SQL \<open>NULL\<close>. Columns that none of the modelled functions
  reads or writes (the generated primary key of a location row, the contact fields of a
  driver) are left out; the row-level-security policies are not part of the model.
\<close>

type_synonym uuid = string
type_synonym decimal = real
type_synonym timestamptz = real

datatype sql_error =
  ForeignKeyViolation | NumericValueOutOfRange | NegativeSquareRoot | DivisionByZero

text \<open>The column values an \<open>INSERT INTO delivery_locations\<close> supplies; \<open>recorded_at\<close> may be
  omitted, the column then takes its default \<open>now()\<close>.\<close>

record location_insert =
  delivery_id :: uuid
  driver_id :: "uuid option"
  latitude :: decimal
  longitude :: decimal
  accuracy :: "decimal option"
  altitude :: "decimal option"
  speed :: "decimal option"
  heading :: "decimal option"
  battery_level :: "decimal option"
  recorded_at :: "timestamptz option"

text \<open>A stored row of \<open>delivery_locations\<close>.\<close>

record delivery_location =
  delivery_id :: uuid
  driver_id :: "uuid option"
  latitude :: decimal
  longitude :: decimal
  accuracy :: "decimal option"
  altitude :: "decimal option"
  speed :: "decimal option"
  heading :: "decimal option"
  battery_level :: "decimal option"
  recorded_at :: timestamptz
  created_at :: timestamptz

text \<open>The columns of \<open>outgoing_deliveries\<close> that the migration adds, and \<open>restaurant_id\<close>.\<close>

record outgoing_delivery =
  restaurant_id :: string
  driver_id :: "uuid option"
  current_latitude :: "decimal option"
  current_longitude :: "decimal option"
  current_speed :: "decimal option"
  current_heading :: "decimal option"
  last_location_update :: "timestamptz option"
  tracking_started_at :: "timestamptz option"
  tracking_ended_at :: "timestamptz option"
  estimated_arrival_time :: "timestamptz option"
  route_distance_km :: "decimal option"
  route_duration_minutes :: "int option"

record restaurant =
  latitude :: "decimal option"
  longitude :: "decimal option"
  delivery_instructions :: "string option"

text \<open>The database: each keyed table is a map from its primary key, the location log is
  the list of its rows in insertion order (oldest first), and of \<open>drivers\<close> only the set of
  existing keys matters.\<close>

record db =
  outgoing_deliveries :: "uuid \<rightharpoonup> outgoing_delivery"
  delivery_locations :: "delivery_location list"
  restaurants :: "string \<rightharpoonup> restaurant"
  drivers :: "uuid set"

subsection \<open>Storing a number into a \<open>decimal(p, s)\<close> column\<close>

text \<open>
  The value is rounded to \<open>s\<close> decimal places, a half away from zero; when the rounded
  value has more than \<open>p - s\<close> digits before the point the statement fails with
  \<open>numeric_value_out_of_range\<close> (22003).
\<close>

definition round_scale :: "nat \<Rightarrow> real \<Rightarrow> real" where
  "round_scale s x =
     (if x < 0 then - (of_int \<lfloor>- x * 10 ^ s + 1 / 2\<rfloor> / 10 ^ s)
      else of_int \<lfloor>x * 10 ^ s + 1 / 2\<rfloor> / 10 ^ s)"

definition coerce_decimal :: "nat \<Rightarrow> nat \<Rightarrow> real \<Rightarrow> sql_error + decimal" where
  "coerce_decimal p s x =
     (if 10 ^ (p - s) \<le> \<bar>round_scale s x\<bar> then Inl NumericValueOutOfRange
      else Inr (round_scale s x))"

definition coerce_nullable :: "nat \<Rightarrow> nat \<Rightarrow> real option \<Rightarrow> sql_error + decimal option" where
  "coerce_nullable p s x =
     (case x of
        None \<Rightarrow> Inr None
      | Some v \<Rightarrow> (case coerce_decimal p s v of Inl e \<Rightarrow> Inl e | Inr r \<Rightarrow> Inr (Some r)))"

subsection \<open>The projector trigger\<close>

text \<open>
  \<^verbatim>\<open>UPDATE outgoing_deliveries SET current_latitude = NEW.latitude, ...
  WHERE id = NEW.delivery_id\<close>: every row whose key is \<open>NEW.delivery_id\<close> gets the five
  snapshot columns of the new location row; nothing is compared with the old values. Each
  snapshot column has the type of the column of \<open>NEW\<close> it is copied from
  (\<open>decimal(10, 8)\<close>, \<open>decimal(11, 8)\<close>, \<open>decimal(6, 2)\<close>, \<open>decimal(5, 2)\<close>), so the
  stored values of \<open>NEW\<close> fit as they are (\<open>coerce_decimal_idem\<close> below).
\<close>

definition update_delivery_current_location :: "delivery_location \<Rightarrow> db \<Rightarrow> db" where
  "update_delivery_current_location NEW s =
     s\<lparr>outgoing_deliveries := (\<lambda>i.
         if i = delivery_location.delivery_id NEW
         then map_option (\<lambda>row. row\<lparr>
                current_latitude := Some (delivery_location.latitude NEW),
                current_longitude := Some (delivery_location.longitude NEW),
                current_speed := delivery_location.speed NEW,
                current_heading := delivery_location.heading NEW,
                last_location_update := Some (delivery_location.recorded_at NEW)\<rparr>)
              (outgoing_deliveries s i)
         else outgoing_deliveries s i)\<rparr>"

text \<open>
  The row an insert stores at server time \<open>now\<close>: each number is coerced to the type of
  its column (\<open>latitude decimal(10, 8)\<close>, \<open>longitude decimal(11, 8)\<close>,
  \<open>accuracy decimal(8, 2)\<close>, \<open>altitude decimal(10, 2)\<close>, \<open>speed decimal(6, 2)\<close>,
  \<open>heading decimal(5, 2)\<close>, \<open>battery_level decimal(5, 2)\<close>), and the defaults of
  \<open>recorded_at\<close> and \<open>created_at\<close> are applied.
\<close>

definition new_row :: "timestamptz \<Rightarrow> location_insert \<Rightarrow> sql_error + delivery_location" where
  "new_row now v =
     (case coerce_decimal 10 8 (location_insert.latitude v) of Inl e \<Rightarrow> Inl e | Inr lat \<Rightarrow>
      case coerce_decimal 11 8 (location_insert.longitude v) of Inl e \<Rightarrow> Inl e | Inr lon \<Rightarrow>
      case coerce_nullable 8 2 (location_insert.accuracy v) of Inl e \<Rightarrow> Inl e | Inr acc \<Rightarrow>
      case coerce_nullable 10 2 (location_insert.altitude v) of Inl e \<Rightarrow> Inl e | Inr alt \<Rightarrow>
      case coerce_nullable 6 2 (location_insert.speed v) of Inl e \<Rightarrow> Inl e | Inr spd \<Rightarrow>
      case coerce_nullable 5 2 (location_insert.heading v) of Inl e \<Rightarrow> Inl e | Inr hdg \<Rightarrow>
      case coerce_nullable 5 2 (location_insert.battery_level v) of Inl e \<Rightarrow> Inl e | Inr bat \<Rightarrow>
        Inr \<lparr>delivery_location.delivery_id = location_insert.delivery_id v,
             driver_id = location_insert.driver_id v,
             latitude = lat,
             longitude = lon,
             accuracy = acc,
             altitude = alt,
             speed = spd,
             heading = hdg,
             battery_level = bat,
             recorded_at = (case location_insert.recorded_at v of None \<Rightarrow> now | Some t \<Rightarrow> t),
             created_at = now\<rparr>)"

text \<open>
  One insert into \<open>delivery_locations\<close>: the row is formed (a number out of the range of
  its column rejects the insert), the two foreign keys are checked (a violation rejects
  it), the row is appended, and the \<open>AFTER INSERT ... FOR EACH ROW\<close> trigger runs on it. A
  rejected insert leaves the database as it was.
\<close>

definition insert_delivery_location ::
    "timestamptz \<Rightarrow> location_insert \<Rightarrow> db \<Rightarrow> sql_error + db" where
  "insert_delivery_location now v s =
     (case new_row now v of
        Inl e \<Rightarrow> Inl e
      | Inr NEW \<Rightarrow>
          if outgoing_deliveries s (location_insert.delivery_id v) = None
            then Inl ForeignKeyViolation
          else if (case location_insert.driver_id v of None \<Rightarrow> False | Some d \<Rightarrow> d \<notin> drivers s)
            then Inl ForeignKeyViolation
          else Inr (update_delivery_current_location NEW
                      (s\<lparr>delivery_locations := delivery_locations s @ [NEW]\<rparr>)))"

text \<open>A sequence of inserts, each with the server time at which it arrives.\<close>

fun insert_all :: "db \<Rightarrow> (timestamptz \<times> location_insert) list \<Rightarrow> sql_error + db" where
  "insert_all s [] = Inr s"
| "insert_all s (op # ops) =
     (case insert_delivery_location (fst op) (snd op) s of
        Inl e \<Rightarrow> Inl e
      | Inr s' \<Rightarrow> insert_all s' ops)"

text \<open>What a reader sees of a delivery's snapshot, and the same five values of a location
  row.\<close>

definition snapshot_of ::
    "outgoing_delivery \<Rightarrow>
       decimal option \<times> decimal option \<times> decimal option \<times> decimal option \<times> timestamptz option" where
  "snapshot_of row =
     (current_latitude row, current_longitude row, current_speed row, current_heading row,
      last_location_update row)"

definition fix_fields ::
    "delivery_location \<Rightarrow>
       decimal option \<times> decimal option \<times> decimal option \<times> decimal option \<times> timestamptz option" where
  "fix_fields l =
     (Some (delivery_location.latitude l), Some (delivery_location.longitude l),
      delivery_location.speed l, delivery_location.heading l,
      Some (delivery_location.recorded_at l))"

definition fixes_for :: "uuid \<Rightarrow> delivery_location list \<Rightarrow> delivery_location list" where
  "fixes_for d ls = filter (\<lambda>l. delivery_location.delivery_id l = d) ls"

subsection \<open>SQL arithmetic\<close>

text \<open>
  The operators and functions of SQL are strict: a \<open>NULL\<close> argument gives \<open>NULL\<close>, and
  the function is not run. Sums, differences and products of \<open>decimal\<close> values are exact.
  The square root of a negative number and a division by zero raise.
\<close>

definition num_add :: "decimal option \<Rightarrow> decimal option \<Rightarrow> decimal option" where
  "num_add x y = (case x of None \<Rightarrow> None | Some a \<Rightarrow> (case y of None \<Rightarrow> None | Some b \<Rightarrow> Some (a + b)))"

definition num_sub :: "decimal option \<Rightarrow> decimal option \<Rightarrow> decimal option" where
  "num_sub x y = (case x of None \<Rightarrow> None | Some a \<Rightarrow> (case y of None \<Rightarrow> None | Some b \<Rightarrow> Some (a - b)))"

definition num_mul :: "decimal option \<Rightarrow> decimal option \<Rightarrow> decimal option" where
  "num_mul x y = (case x of None \<Rightarrow> None | Some a \<Rightarrow> (case y of None \<Rightarrow> None | Some b \<Rightarrow> Some (a * b)))"

definition num_div :: "decimal option \<Rightarrow> decimal option \<Rightarrow> sql_error + decimal option" where
  "num_div x y =
     (case x of None \<Rightarrow> Inr None
      | Some a \<Rightarrow> (case y of None \<Rightarrow> Inr None
          | Some b \<Rightarrow> if b = 0 then Inl DivisionByZero else Inr (Some (a / b))))"

text \<open>\<open>x / 2\<close>: a quotient by a non-zero literal cannot raise.\<close>

definition num_half :: "decimal option \<Rightarrow> decimal option" where
  "num_half x = map_option (\<lambda>a. a / 2) x"

text \<open>
  \<open>radians\<close>, \<open>sin\<close>, \<open>cos\<close> and \<open>atan2\<close> are functions of \<open>double precision\<close>: a
  \<open>decimal\<close> argument is cast to a double, the product and the sum of two results are
  those of doubles, and a result assigned to a \<open>decimal\<close> variable is cast back. None of
  this is exact, and how it rounds is fixed by PostgreSQL, not by the migration: the
  model takes these operations as a parameter \<open>fl\<close> and assumes nothing of them. A double
  is the real number it stands for. The square root is taken of a \<open>decimal\<close>; its value
  on a number that is not negative is PostgreSQL's as well.
\<close>

record float8 =
  of_decimal :: "real \<Rightarrow> real"
  to_decimal :: "real \<Rightarrow> real"
  radians_f8 :: "real \<Rightarrow> real"
  sin_f8 :: "real \<Rightarrow> real"
  cos_f8 :: "real \<Rightarrow> real"
  atan2_f8 :: "real \<Rightarrow> real \<Rightarrow> real"
  times_f8 :: "real \<Rightarrow> real \<Rightarrow> real"
  plus_f8 :: "real \<Rightarrow> real \<Rightarrow> real"
  sqrt_decimal :: "real \<Rightarrow> real"

text \<open>\<open>radians(x)\<close> and \<open>sin(x)\<close> of a \<open>decimal\<close>, \<open>cos(x)\<close> of a double, the product and
  the sum of two doubles, and the assignment of a double to a \<open>decimal\<close> variable.\<close>

definition sql_radians :: "float8 \<Rightarrow> decimal option \<Rightarrow> real option" where
  "sql_radians fl x = map_option (\<lambda>a. radians_f8 fl (of_decimal fl a)) x"

definition sql_sin :: "float8 \<Rightarrow> decimal option \<Rightarrow> real option" where
  "sql_sin fl x = map_option (\<lambda>a. sin_f8 fl (of_decimal fl a)) x"

definition sql_cos :: "float8 \<Rightarrow> real option \<Rightarrow> real option" where
  "sql_cos fl x = map_option (cos_f8 fl) x"

definition f8_mul :: "float8 \<Rightarrow> real option \<Rightarrow> real option \<Rightarrow> real option" where
  "f8_mul fl x y =
     (case x of None \<Rightarrow> None | Some a \<Rightarrow> (case y of None \<Rightarrow> None | Some b \<Rightarrow> Some (times_f8 fl a b)))"

definition f8_add :: "float8 \<Rightarrow> real option \<Rightarrow> real option \<Rightarrow> real option" where
  "f8_add fl x y =
     (case x of None \<Rightarrow> None | Some a \<Rightarrow> (case y of None \<Rightarrow> None | Some b \<Rightarrow> Some (plus_f8 fl a b)))"

definition assign_decimal :: "float8 \<Rightarrow> real option \<Rightarrow> decimal option" where
  "assign_decimal fl x = map_option (to_decimal fl) x"

definition sql_sqrt :: "float8 \<Rightarrow> decimal option \<Rightarrow> sql_error + decimal option" where
  "sql_sqrt fl x =
     (case x of None \<Rightarrow> Inr None
      | Some a \<Rightarrow> if a < 0 then Inl NegativeSquareRoot else Inr (Some (sqrt_decimal fl a)))"

definition sql_atan2 :: "float8 \<Rightarrow> decimal option \<Rightarrow> decimal option \<Rightarrow> real option" where
  "sql_atan2 fl y x =
     (case y of None \<Rightarrow> None
      | Some b \<Rightarrow> (case x of None \<Rightarrow> None
          | Some a \<Rightarrow> Some (atan2_f8 fl (of_decimal fl b) (of_decimal fl a))))"

text \<open>
  One arithmetic to compare with: every operation exact. The two-argument arctangent
  has the conventions of the C library.
\<close>

definition atan2 :: "real \<Rightarrow> real \<Rightarrow> real" where
  "atan2 y x =
     (if 0 < x then arctan (y / x)
      else if x < 0 then (if 0 \<le> y then arctan (y / x) + pi else arctan (y / x) - pi)
      else if 0 < y then pi / 2
      else if y < 0 then - (pi / 2)
      else 0)"

definition exact_arithmetic :: float8 where
  "exact_arithmetic =
     \<lparr>of_decimal = (\<lambda>x. x), to_decimal = (\<lambda>x. x), radians_f8 = (\<lambda>x. x * pi / 180),
      sin_f8 = sin, cos_f8 = cos, atan2_f8 = atan2, times_f8 = (\<lambda>x y. x * y),
      plus_f8 = (\<lambda>x y. x + y), sqrt_decimal = sqrt\<rparr>"

subsection \<open>The ETA estimator\<close>

text \<open>
  \<^verbatim>\<open>calculate_distance_km(lat1, lon1, lat2, lon2)\<close>, the Haversine distance with Earth
  radius 6371 km, statement by statement; \<open>dlat\<close>, \<open>dlon\<close>, \<open>a\<close> and \<open>c\<close> are \<open>decimal\<close>
  variables:
  \<^verbatim>\<open>dlat := radians(lat2 - lat1); dlon := radians(lon2 - lon1);
  a := sin(dlat/2) * sin(dlat/2) + cos(radians(lat1)) * cos(radians(lat2)) * sin(dlon/2) * sin(dlon/2);
  c := 2 * atan2(sqrt(a), sqrt(1-a)); RETURN R * c;\<close>
\<close>

definition calculate_distance_km ::
    "float8 \<Rightarrow> decimal option \<Rightarrow> decimal option \<Rightarrow> decimal option \<Rightarrow> decimal option
       \<Rightarrow> sql_error + decimal option" where
  "calculate_distance_km fl lat1 lon1 lat2 lon2 =
     (let R = Some 6371;
          dlat = assign_decimal fl (sql_radians fl (num_sub lat2 lat1));
          dlon = assign_decimal fl (sql_radians fl (num_sub lon2 lon1));
          a = assign_decimal fl
                (f8_add fl
                   (f8_mul fl (sql_sin fl (num_half dlat)) (sql_sin fl (num_half dlat)))
                   (f8_mul fl
                      (f8_mul fl
                         (f8_mul fl (sql_cos fl (sql_radians fl lat1))
                            (sql_cos fl (sql_radians fl lat2)))
                         (sql_sin fl (num_half dlon)))
                      (sql_sin fl (num_half dlon))))
      in case sql_sqrt fl a of
           Inl e \<Rightarrow> Inl e
         | Inr root_a \<Rightarrow>
             (case sql_sqrt fl (num_sub (Some 1) a) of
                Inl e \<Rightarrow> Inl e
              | Inr root_1a \<Rightarrow>
                  (let c = assign_decimal fl (f8_mul fl (Some 2) (sql_atan2 fl root_a root_1a))
                   in Inr (num_mul R c))))"

text \<open>
  The statements of \<open>estimate_arrival_time\<close> that compute \<open>v_eta_minutes\<close> from the distance
  and the current speed:
  \<^verbatim>\<open>IF v_current_speed IS NULL OR v_current_speed < 1 THEN v_current_speed := 8.33; END IF;
  v_eta_minutes := (v_distance_km / (v_current_speed * 3.6)) * 60;\<close>
\<close>

definition eta_minutes :: "decimal option \<Rightarrow> decimal option \<Rightarrow> sql_error + decimal option" where
  "eta_minutes v_distance_km v_current_speed =
     (let v_current_speed =
            (if (case v_current_speed of None \<Rightarrow> True | Some v \<Rightarrow> v < 1)
             then Some 8.33 else v_current_speed)
      in case num_div v_distance_km (num_mul v_current_speed (Some 3.6)) of
           Inl e \<Rightarrow> Inl e
         | Inr q \<Rightarrow> Inr (num_mul q (Some 60)))"

text \<open>
  \<^verbatim>\<open>estimate_arrival_time(p_delivery_id)\<close> at transaction time \<open>now\<close>, on a server
  whose double-precision arithmetic is \<open>fl\<close>. A
  \<open>SELECT ... INTO\<close> that finds no row leaves its variables \<open>NULL\<close>; the second one joins
  the delivery with its restaurant. The function only reads the database, so its whole
  effect is the value it returns: \<open>Inl\<close> an error raised, \<open>Inr None\<close> the result \<open>NULL\<close>.
\<close>

definition estimate_arrival_time ::
    "float8 \<Rightarrow> timestamptz \<Rightarrow> db \<Rightarrow> uuid \<Rightarrow> sql_error + timestamptz option" where
  "estimate_arrival_time fl now s p_delivery_id =
     (let (v_current_lat, v_current_lon, v_current_speed) =
            (case outgoing_deliveries s p_delivery_id of
               None \<Rightarrow> (None, None, None)
             | Some od \<Rightarrow> (current_latitude od, current_longitude od, current_speed od));
          (v_dest_lat, v_dest_lon) =
            (case outgoing_deliveries s p_delivery_id of
               None \<Rightarrow> (None, None)
             | Some od \<Rightarrow>
                 (case restaurants s (restaurant_id od) of
                    None \<Rightarrow> (None, None)
                  | Some r \<Rightarrow> (restaurant.latitude r, restaurant.longitude r)))
      in if v_current_lat = None \<or> v_dest_lat = None then Inr None
         else (case calculate_distance_km fl v_current_lat v_current_lon v_dest_lat v_dest_lon of
                 Inl e \<Rightarrow> Inl e
               | Inr v_distance_km \<Rightarrow>
                   (case eta_minutes v_distance_km v_current_speed of
                      Inl e \<Rightarrow> Inl e
                    | Inr v_eta_minutes \<Rightarrow> Inr (num_add (Some now) v_eta_minutes))))"

subsection \<open>The snapshot invariant, in the words of the data model\<close>

text \<open>
  The snapshot of delivery \<open>d\<close> is present when one of its five columns is set. The
  invariant of the data model says that a present snapshot is that of a location row of
  \<open>d\<close> whose \<open>recorded_at\<close> is greatest among the rows logged for \<open>d\<close>.
\<close>

definition spec_snapshot_is_latest_recorded :: "db \<Rightarrow> uuid \<Rightarrow> bool" where
  "spec_snapshot_is_latest_recorded s d =
     (case outgoing_deliveries s d of
        None \<Rightarrow> True
      | Some row \<Rightarrow>
          snapshot_of row = (None, None, None, None, None)
          \<or> list_ex (\<lambda>l. snapshot_of row = fix_fields l
                \<and> list_all (\<lambda>l'. delivery_location.recorded_at l' \<le> delivery_location.recorded_at l)
                     (fixes_for d (delivery_locations s)))
               (fixes_for d (delivery_locations s)))"

subsection \<open>A small database and some runs of inserts\<close>

definition example_delivery :: outgoing_delivery where
  "example_delivery =
     \<lparr>restaurant_id = ''r1'', driver_id = Some ''drv1'',
      current_latitude = None, current_longitude = None, current_speed = None,
      current_heading = None, last_location_update = None,
      tracking_started_at = Some 90, tracking_ended_at = None,
      estimated_arrival_time = None, route_distance_km = None,
      route_duration_minutes = None\<rparr>"

definition example_db :: db where
  "example_db =
     \<lparr>outgoing_deliveries = [''d1'' \<mapsto> example_delivery],
      delivery_locations = [],
      restaurants = [''r1'' \<mapsto> \<lparr>restaurant.latitude = Some 60.1699,
                                 longitude = Some 24.9384, delivery_instructions = None\<rparr>],
      drivers = {''drv1''}\<rparr>"

definition example_fix :: "decimal \<Rightarrow> decimal \<Rightarrow> timestamptz option \<Rightarrow> location_insert" where
  "example_fix lat lon t =
     \<lparr>location_insert.delivery_id = ''d1'', driver_id = Some ''drv1'',
      latitude = lat, longitude = lon, accuracy = Some 5, altitude = None,
      speed = Some 12, heading = None, battery_level = None, recorded_at = t\<rparr>"

text \<open>A late retry: the second insert carries an older device time than the first.\<close>

definition late_retry_ops :: "(timestamptz \<times> location_insert) list" where
  "late_retry_ops =
     [(100, example_fix 60.2 24.9 (Some 50)), (101, example_fix 60.1 24.8 (Some 40))]"

text \<open>The same late retry with the numbers of a GPS receiver: more decimal places than
  the columns keep.\<close>

definition gps_ops :: "(timestamptz \<times> location_insert) list" where
  "gps_ops =
     [(100, example_fix 60.2 24.9 (Some 50)),
      (101, (example_fix 60.123456789 24.8 (Some 40))
              \<lparr>location_insert.speed := Some 13.888,
                location_insert.heading := Some 271.125\<rparr>)]"

text \<open>The driver client's inserts: \<open>recorded_at\<close> is left to its default.\<close>

definition in_order_ops :: "(timestamptz \<times> location_insert) list" where
  "in_order_ops = [(100, example_fix 60.2 24.9 None), (101, example_fix 60.1 24.8 None)]"

text \<open>A delivery that is being tracked and stands still, and the same database with a
  restaurant whose longitude was never set.\<close>

definition tracked_delivery :: outgoing_delivery where
  "tracked_delivery =
     example_delivery\<lparr>current_latitude := Some 60.2, current_longitude := Some 24.9,
       current_speed := Some 0, last_location_update := Some 100\<rparr>"

definition tracked_db :: db where
  "tracked_db = example_db\<lparr>outgoing_deliveries := [''d1'' \<mapsto> tracked_delivery]\<rparr>"

text \<open>A delivery that has reached the restaurant.\<close>

definition at_destination_delivery :: outgoing_delivery where
  "at_destination_delivery =
     example_delivery\<lparr>current_latitude := Some 60.1699, current_longitude := Some 24.9384,
       current_speed := Some 0, last_location_update := Some 100\<rparr>"

definition at_destination_db :: db where
  "at_destination_db =
     example_db\<lparr>outgoing_deliveries := [''d1'' \<mapsto> at_destination_delivery]\<rparr>"

definition no_longitude_db :: db where
  "no_longitude_db =
     tracked_db\<lparr>restaurants := [''r1'' \<mapsto> \<lparr>restaurant.latitude = Some 60.1699,
                                              longitude = None, delivery_instructions = None\<rparr>]\<rparr>"

section \<open>The driver's tracker (deliveri-driver/src/services/LocationTracker.ts)\<close>

text \<open>
  The service is one object with three fields. Everything it does besides changing them is
  a call to the backend or to the location services of the device, so the model keeps a
  \<open>world\<close> next to the tracker: the backend calls sent so far, in order; the handles of
  the running foreground watchers; whether the background location task is registered;
  and the console. What the environment answers during a call (the permission dialogs,
  the error of a backend call, the clock) is an argument of the call.
\<close>

record TrackingSession =
  deliveryId :: string
  driverId :: string
  restaurantId :: string

datatype PermissionStatus = granted | denied | undetermined

record LocationObjectCoords =
  latitude :: real
  longitude :: real
  altitude :: "real option"
  accuracy :: "real option"
  heading :: "real option"
  speed :: "real option"

record LocationObject =
  coords :: LocationObjectCoords
  timestamp :: real

text \<open>The body of an \<open>update\<close> on \<open>outgoing_deliveries\<close>; \<open>None\<close> is a key that is not
  sent.\<close>

record delivery_update =
  tracking_status :: string
  tracking_started_at :: "string option"
  tracking_ended_at :: "string option"

datatype backend_call =
  UpdateDelivery string delivery_update
  | InsertLocation location_insert

record world =
  backend_calls :: "backend_call list"
  watchers :: "nat list"
  next_subscription :: nat
  background_task :: bool
  console :: "string list"

record answers =
  foregroundStatus :: PermissionStatus
  backgroundStatus :: PermissionStatus
  backgroundStatusNow :: PermissionStatus
  backendError :: "string option"
  clock :: string

record tracker =
  currentSession :: "TrackingSession option"
  isTracking :: bool
  foregroundSubscription :: "nat option"

definition log_line :: "string \<Rightarrow> world \<Rightarrow> world" where
  "log_line msg w = w\<lparr>console := console w @ [msg]\<rparr>"

definition requestPermissions :: "answers \<Rightarrow> world \<Rightarrow> bool \<times> world" where
  "requestPermissions a w =
     (if foregroundStatus a \<noteq> granted
        then (False, log_line ''Foreground location permission denied'' w)
      else if backgroundStatus a \<noteq> granted
        then (True, log_line
           ''Background location permission denied - tracking will only work in foreground'' w)
      else (True, w))"

text \<open>
  \<open>startTracking(session)\<close>. A local variable that the source assigns again is bound
  again by the next \<open>let\<close>. The result is the promise's value with the new tracker and
  world.
\<close>

definition startTracking ::
    "answers \<Rightarrow> TrackingSession \<Rightarrow> tracker \<times> world \<Rightarrow> bool \<times> tracker \<times> world" where
  "startTracking a session tw =
     (let (t, w) = tw in
      if isTracking t then (True, t, log_line ''Already tracking'' w)
      else
        let (hasPermission, w) = requestPermissions a w in
        if \<not> hasPermission then (False, t, w)
        else
          let t = t\<lparr>currentSession := Some session\<rparr>;
              w = w\<lparr>backend_calls := backend_calls w @
                    [UpdateDelivery (deliveryId session)
                       \<lparr>tracking_status = ''in_transit'',
                        tracking_started_at = Some (clock a),
                        tracking_ended_at = None\<rparr>]\<rparr>;
              w = (case backendError a of
                     None \<Rightarrow> w
                   | Some e \<Rightarrow> log_line (''Failed to update delivery status: '' @ e) w);
              h = next_subscription w;
              w = w\<lparr>watchers := watchers w @ [h], next_subscription := Suc h\<rparr>;
              t = t\<lparr>foregroundSubscription := Some h\<rparr>;
              w = (if backgroundStatusNow a = granted then w\<lparr>background_task := True\<rparr> else w);
              t = t\<lparr>isTracking := True\<rparr>
          in (True, t, w))"

text \<open>\<open>stopTracking()\<close>; \<open>isTaskRegisteredAsync\<close> reads whether the background task is
  registered.\<close>

definition stopTracking :: "answers \<Rightarrow> tracker \<times> world \<Rightarrow> tracker \<times> world" where
  "stopTracking a tw =
     (let (t, w) = tw in
      if \<not> isTracking t then (t, w)
      else
        let (t, w) = (case foregroundSubscription t of
                        None \<Rightarrow> (t, w)
                      | Some h \<Rightarrow> (t\<lparr>foregroundSubscription := None\<rparr>,
                                   w\<lparr>watchers := removeAll h (watchers w)\<rparr>));
            isTaskRunning = background_task w;
            w = (if isTaskRunning then w\<lparr>background_task := False\<rparr> else w);
            w = (case currentSession t of
                   None \<Rightarrow> w
                 | Some session \<Rightarrow>
                     (let w = w\<lparr>backend_calls := backend_calls w @
                                [UpdateDelivery (deliveryId session)
                                   \<lparr>tracking_status = ''delivered'',
                                    tracking_started_at = None,
                                    tracking_ended_at = Some (clock a)\<rparr>]\<rparr>
                      in case backendError a of
                           None \<Rightarrow> w
                         | Some e \<Rightarrow> log_line (''Failed to update delivery status: '' @ e) w));
            t = t\<lparr>currentSession := None\<rparr>;
            t = t\<lparr>isTracking := False\<rparr>
        in (t, w))"

text \<open>\<open>sendLocationUpdate(location)\<close>, the body of both location callbacks. The insert
  carries no \<open>recorded_at\<close>.\<close>

definition sendLocationUpdate ::
    "answers \<Rightarrow> LocationObject \<Rightarrow> tracker \<times> world \<Rightarrow> tracker \<times> world" where
  "sendLocationUpdate a location tw =
     (let (t, w) = tw in
      case currentSession t of
        None \<Rightarrow> (t, w)
      | Some session \<Rightarrow>
          (let c = coords location;
               w = w\<lparr>backend_calls := backend_calls w @
                      [InsertLocation
                         \<lparr>location_insert.delivery_id = deliveryId session,
                          driver_id = Some (driverId session),
                          latitude = LocationObjectCoords.latitude c,
                          longitude = LocationObjectCoords.longitude c,
                          accuracy = LocationObjectCoords.accuracy c,
                          altitude = None,
                          speed = LocationObjectCoords.speed c,
                          heading = LocationObjectCoords.heading c,
                          battery_level = None,
                          recorded_at = None\<rparr>]\<rparr>;
               w = (case backendError a of
                      None \<Rightarrow> w
                    | Some e \<Rightarrow> log_line (''Failed to send location update: '' @ e) w)
           in (t, w)))"

text \<open>The calls that reach the service, one after the other, from the moment the module
  is loaded.\<close>

datatype action = Start answers TrackingSession | Stop answers | Fix answers LocationObject

fun step :: "tracker \<times> world \<Rightarrow> action \<Rightarrow> tracker \<times> world" where
  "step tw (Start a session) = snd (startTracking a session tw)"
| "step tw (Stop a) = stopTracking a tw"
| "step tw (Fix a location) = sendLocationUpdate a location tw"

definition initial_tracker :: tracker where
  "initial_tracker = \<lparr>currentSession = None, isTracking = False, foregroundSubscription = None\<rparr>"

definition initial_world :: world where
  "initial_world =
     \<lparr>backend_calls = [], watchers = [], next_subscription = 0, background_task = False,
      console = []\<rparr>"

definition run :: "action list \<Rightarrow> tracker \<times> world" where
  "run actions = foldl step (initial_tracker, initial_world) actions"

text \<open>The fields of the tracker agree with each other and with the watchers of the
  device.\<close>

definition consistent :: "tracker \<times> world \<Rightarrow> bool" where
  "consistent tw =
     (isTracking (fst tw) = (currentSession (fst tw) \<noteq> None)
      \<and> watchers (snd tw) =
          (case foregroundSubscription (fst tw) of None \<Rightarrow> [] | Some h \<Rightarrow> [h])
      \<and> isTracking (fst tw) = (foregroundSubscription (fst tw) \<noteq> None))"

definition example_session :: TrackingSession where
  "example_session = \<lparr>deliveryId = ''d1'', driverId = ''drv1'', restaurantId = ''r1''\<rparr>"

definition example_answers :: "PermissionStatus \<Rightarrow> answers" where
  "example_answers fg =
     \<lparr>foregroundStatus = fg, backgroundStatus = denied, backgroundStatusNow = denied,
      backendError = None, clock = ''2026-02-04T10:00:00.000Z''\<rparr>"

definition example_location :: LocationObject where
  "example_location =
     \<lparr>coords = \<lparr>LocationObjectCoords.latitude = 60.2, longitude = 24.9, altitude = None,
                accuracy = Some 5, heading = None, speed = Some 12\<rparr>,
      timestamp = 1770199200000\<rparr>"


section \<open>The tracking status (TrackingStatusBadge)\<close>

text \<open>
  An optional parameter of type \<open>T | null\<close> is \<open>undefined\<close>, \<open>null\<close> or a value. A
  timestamp is an ISO string; \<open>if (x)\<close> on such a parameter holds exactly for a string
  that is not empty. A distance is a finite number, read from a \<open>decimal\<close> column.
\<close>

datatype 'a optional = Undefined | Null | Value 'a

datatype TrackingStatus = not_started | tracking | arriving_soon | arrived

definition truthy :: "string optional \<Rightarrow> bool" where
  "truthy x = (case x of Value s \<Rightarrow> s \<noteq> [] | _ \<Rightarrow> False)"

definition getTrackingStatus ::
    "string optional \<Rightarrow> string optional \<Rightarrow> real optional \<Rightarrow> TrackingStatus" where
  "getTrackingStatus trackingStartedAt trackingEndedAt distanceKm =
     (if truthy trackingEndedAt then arrived
      else if \<not> truthy trackingStartedAt then not_started
      else if distanceKm \<noteq> Null \<and> distanceKm \<noteq> Undefined
              \<and> (case distanceKm of Value d \<Rightarrow> d < 0.5 | _ \<Rightarrow> False)
        then arriving_soon
      else tracking)"

section \<open>The tracking subscriber (src/hooks/useDeliveryLocation.ts)\<close>

text \<open>
  The state of the hook. \<open>trackingInfo\<close> holds the columns of the delivery row that the
  hook selects (the joined driver is left out). A fetch is answered by the database as it
  is at that moment, or by an error of one of its two queries.
\<close>

record Coordinates =
  lat :: real
  lng :: real

record subscriber =
  currentLocation :: "Coordinates option"
  trackingInfo :: "outgoing_delivery option"
  locationHistory :: "delivery_location list"
  isLoading :: bool
  isConnected :: bool
  error :: "string option"
  lastUpdate :: "timestamptz option"

record fetch_answers =
  server :: db
  deliveryError :: "string option"
  historyError :: "string option"

text \<open>The history query:
  \<^verbatim>\<open>.eq('delivery_id', deliveryId).order('recorded_at', { ascending: false }).limit(100)\<close>.\<close>

definition select_recent_locations :: "db \<Rightarrow> uuid \<Rightarrow> delivery_location list" where
  "select_recent_locations s i =
     take 100 (rev (sort_key delivery_location.recorded_at
                      (fixes_for i (delivery_locations s))))"

text \<open>\<open>a && b\<close> on two nullable numbers: \<open>null\<close> and 0 are falsy.\<close>

definition truthy_number :: "real option \<Rightarrow> bool" where
  "truthy_number x = (case x of None \<Rightarrow> False | Some v \<Rightarrow> v \<noteq> 0)"

text \<open>The \<open>catch\<close> and \<open>finally\<close> blocks of \<open>fetchTrackingData\<close>.\<close>

definition fetch_failed :: "subscriber \<Rightarrow> subscriber" where
  "fetch_failed st = st\<lparr>error := Some ''Failed to load tracking data'', isLoading := False\<rparr>"

definition fetchTrackingData :: "fetch_answers \<Rightarrow> string option \<Rightarrow> subscriber \<Rightarrow> subscriber" where
  "fetchTrackingData a deliveryId_opt st =
     (case deliveryId_opt of
        None \<Rightarrow> st
      | Some i \<Rightarrow>
          if i = [] then st
          else
            let st = st\<lparr>isLoading := True, error := None\<rparr> in
            if deliveryError a \<noteq> None then fetch_failed st
            else
              (case outgoing_deliveries (server a) i of
                 None \<Rightarrow> fetch_failed st
               | Some delivery \<Rightarrow>
                   let st = st\<lparr>trackingInfo := Some delivery\<rparr>;
                       st = (if truthy_number (current_latitude delivery)
                                \<and> truthy_number (current_longitude delivery)
                             then st\<lparr>currentLocation :=
                                        Some \<lparr>lat = the (current_latitude delivery),
                                              lng = the (current_longitude delivery)\<rparr>,
                                     lastUpdate := last_location_update delivery\<rparr>
                             else st)
                   in if historyError a \<noteq> None then fetch_failed st
                      else st\<lparr>locationHistory := select_recent_locations (server a) i,
                              isLoading := False\<rparr>))"

text \<open>The handler of an \<open>INSERT\<close> on \<open>delivery_locations\<close>.\<close>

definition on_location_insert :: "delivery_location \<Rightarrow> subscriber \<Rightarrow> subscriber" where
  "on_location_insert newLocation st =
     st\<lparr>currentLocation := Some \<lparr>lat = delivery_location.latitude newLocation,
                                 lng = delivery_location.longitude newLocation\<rparr>,
        trackingInfo := map_option (\<lambda>prev. prev\<lparr>
            current_latitude := Some (delivery_location.latitude newLocation),
            current_longitude := Some (delivery_location.longitude newLocation),
            current_speed := delivery_location.speed newLocation,
            current_heading := delivery_location.heading newLocation,
            last_location_update := Some (delivery_location.recorded_at newLocation)\<rparr>)
          (trackingInfo st),
        locationHistory := take 100 (newLocation # locationHistory st),
        lastUpdate := Some (delivery_location.recorded_at newLocation)\<rparr>"

text \<open>The handler of an \<open>UPDATE\<close> on \<open>outgoing_deliveries\<close>.\<close>

definition on_delivery_update :: "outgoing_delivery \<Rightarrow> subscriber \<Rightarrow> subscriber" where
  "on_delivery_update updated st =
     st\<lparr>trackingInfo := map_option (\<lambda>prev. prev\<lparr>
            outgoing_delivery.driver_id := outgoing_delivery.driver_id updated,
            estimated_arrival_time := estimated_arrival_time updated,
            outgoing_delivery.tracking_started_at := outgoing_delivery.tracking_started_at updated,
            outgoing_delivery.tracking_ended_at := outgoing_delivery.tracking_ended_at updated\<rparr>)
          (trackingInfo st)\<rparr>"

datatype subscriber_event =
  Fetched fetch_answers
  | LocationInserted delivery_location
  | DeliveryUpdated outgoing_delivery
  | ChannelStatus string

fun subscriber_step :: "string option \<Rightarrow> subscriber \<Rightarrow> subscriber_event \<Rightarrow> subscriber" where
  "subscriber_step deliveryId_opt st (Fetched a) = fetchTrackingData a deliveryId_opt st"
| "subscriber_step deliveryId_opt st (LocationInserted newLocation) = on_location_insert newLocation st"
| "subscriber_step deliveryId_opt st (DeliveryUpdated updated) = on_delivery_update updated st"
| "subscriber_step deliveryId_opt st (ChannelStatus status) =
     st\<lparr>isConnected := (status = ''SUBSCRIBED'')\<rparr>"

definition initial_subscriber :: subscriber where
  "initial_subscriber =
     \<lparr>currentLocation = None, trackingInfo = None, locationHistory = [], isLoading = True,
      isConnected = False, error = None, lastUpdate = None\<rparr>"


section \<open>Properties of the projector\<close>

text \<open>A value read from a \<open>decimal(p, s)\<close> column is stored unchanged into a column of
  the same type.\<close>

lemma round_scale_idem: "round_scale s (round_scale s x) = round_scale s x"
proof -
  have pos: "(0::real) < 10 ^ s" by simp
  have key: "of_int \<lfloor>of_int n / 10 ^ s * 10 ^ s + 1 / (2::real)\<rfloor> / 10 ^ s
      = (of_int n :: real) / 10 ^ s" for n :: int
  proof -
    have "of_int n / 10 ^ s * 10 ^ s = (of_int n :: real)" by simp
    moreover have "\<lfloor>(of_int n :: real) + 1 / 2\<rfloor> = n" by linarith
    ultimately show ?thesis by simp
  qed
  show ?thesis
  proof (cases "x < 0")
    case True
    define n where "n = \<lfloor>- x * 10 ^ s + 1 / 2\<rfloor>"
    from True have "0 \<le> - x" by simp
    with pos have "0 \<le> - x * 10 ^ s" by (intro mult_nonneg_nonneg) simp_all
    then have n0: "0 \<le> n" unfolding n_def by linarith
    have r: "round_scale s x = - (of_int n / 10 ^ s)"
      using True by (simp add: round_scale_def n_def)
    show ?thesis
    proof (cases "n = 0")
      case True
      with r show ?thesis by (simp add: round_scale_def)
    next
      case False
      with n0 have "0 < n" by simp
      then have "- (of_int n / 10 ^ s) < (0::real)" by simp
      then show ?thesis
        unfolding r using key [of n] by (simp add: round_scale_def)
    qed
  next
    case False
    define n where "n = \<lfloor>x * 10 ^ s + 1 / 2\<rfloor>"
    from False have "0 \<le> x" by simp
    with pos have "0 \<le> x * 10 ^ s" by (intro mult_nonneg_nonneg) simp_all
    then have n0: "0 \<le> n" unfolding n_def by linarith
    have r: "round_scale s x = of_int n / 10 ^ s"
      using False by (simp add: round_scale_def n_def)
    from n0 have "\<not> (of_int n / 10 ^ s < (0::real))" by (simp add: not_less)
    then show ?thesis
      unfolding r using key [of n] by (simp add: round_scale_def)
  qed
qed

lemma coerce_decimal_idem:
  "coerce_decimal p s x = Inr r \<Longrightarrow> coerce_decimal p s r = Inr r"
  by (auto simp: coerce_decimal_def round_scale_idem split: if_splits)

lemma new_row_delivery_id:
  "new_row now v = Inr NEW \<Longrightarrow>
     delivery_location.delivery_id NEW = location_insert.delivery_id v"
  by (auto simp: new_row_def split: sum.splits)

lemma insert_delivery_location_log:
  assumes "insert_delivery_location now v s = Inr s'"
  shows "\<exists>NEW. new_row now v = Inr NEW \<and> delivery_locations s' = delivery_locations s @ [NEW]"
  using assms
  by (auto simp: insert_delivery_location_def update_delivery_current_location_def
      split: if_splits sum.splits)

lemma insert_delivery_location_other:
  assumes "insert_delivery_location now v s = Inr s'"
    and "location_insert.delivery_id v \<noteq> d"
  shows "outgoing_deliveries s' d = outgoing_deliveries s d"
  using assms
  by (auto simp: insert_delivery_location_def update_delivery_current_location_def
      dest: new_row_delivery_id split: if_splits sum.splits)

lemma insert_delivery_location_snapshot:
  assumes "insert_delivery_location now v s = Inr s'"
  shows "\<exists>row. outgoing_deliveries s' (location_insert.delivery_id v) = Some row
           \<and> snapshot_of row = fix_fields (last (delivery_locations s'))"
  using assms
  by (auto simp: insert_delivery_location_def update_delivery_current_location_def
      snapshot_of_def fix_fields_def dest: new_row_delivery_id split: if_splits sum.splits)

lemma insert_all_snoc:
  "insert_all s (ops @ [op]) =
     (case insert_all s ops of
        Inl e \<Rightarrow> Inl e
      | Inr s' \<Rightarrow> insert_delivery_location (fst op) (snd op) s')"
  by (induction ops arbitrary: s) (auto split: sum.splits)

lemma fixes_for_append [simp]: "fixes_for d (xs @ ys) = fixes_for d xs @ fixes_for d ys"
  by (simp add: fixes_for_def)

text \<open>
  Last write wins: a run of successful inserts appends one stored row for each insert, in
  order; afterwards the snapshot of a delivery is that of the last row the run stored for
  it, and is untouched when the run stored none.
\<close>

lemma insert_all_snapshot:
  assumes "insert_all s ops = Inr s'"
  shows "\<exists>rows. delivery_locations s' = delivery_locations s @ rows
           \<and> list_all2 (\<lambda>op NEW. new_row (fst op) (snd op) = Inr NEW) ops rows
           \<and> (fixes_for d rows = [] \<longrightarrow> outgoing_deliveries s' d = outgoing_deliveries s d)
           \<and> (fixes_for d rows \<noteq> [] \<longrightarrow>
                (\<exists>row. outgoing_deliveries s' d = Some row
                   \<and> snapshot_of row = fix_fields (last (fixes_for d rows))))"
  using assms
proof (induction ops arbitrary: s' rule: rev_induct)
  case Nil
  then show ?case by (simp add: fixes_for_def)
next
  case (snoc op ops)
  from snoc.prems obtain s1 where s1: "insert_all s ops = Inr s1"
    and step: "insert_delivery_location (fst op) (snd op) s1 = Inr s'"
    by (auto simp: insert_all_snoc split: sum.splits)
  from snoc.IH [OF s1] obtain rows where
    log1: "delivery_locations s1 = delivery_locations s @ rows"
    and all1: "list_all2 (\<lambda>op NEW. new_row (fst op) (snd op) = Inr NEW) ops rows"
    and same1: "fixes_for d rows = [] \<longrightarrow> outgoing_deliveries s1 d = outgoing_deliveries s d"
    and snap1: "fixes_for d rows \<noteq> [] \<longrightarrow>
        (\<exists>row. outgoing_deliveries s1 d = Some row
           \<and> snapshot_of row = fix_fields (last (fixes_for d rows)))"
    by blast
  from insert_delivery_location_log [OF step] obtain NEW where
    new: "new_row (fst op) (snd op) = Inr NEW"
    and log2: "delivery_locations s' = delivery_locations s1 @ [NEW]"
    by blast
  have id: "delivery_location.delivery_id NEW = location_insert.delivery_id (snd op)"
    using new by (rule new_row_delivery_id)
  have log: "delivery_locations s' = delivery_locations s @ (rows @ [NEW])"
    using log1 log2 by simp
  have all: "list_all2 (\<lambda>op NEW. new_row (fst op) (snd op) = Inr NEW) (ops @ [op]) (rows @ [NEW])"
    using all1 new by (simp add: list_all2_appendI)
  show ?case
  proof (cases "location_insert.delivery_id (snd op) = d")
    case True
    with id have f: "fixes_for d (rows @ [NEW]) = fixes_for d rows @ [NEW]"
      by (simp add: fixes_for_def)
    from insert_delivery_location_snapshot [OF step] True log2
    have "\<exists>row. outgoing_deliveries s' d = Some row \<and> snapshot_of row = fix_fields NEW"
      by simp
    with f log all show ?thesis
      by (intro exI [of _ "rows @ [NEW]"]) simp
  next
    case False
    with id have f: "fixes_for d (rows @ [NEW]) = fixes_for d rows"
      by (simp add: fixes_for_def)
    from insert_delivery_location_other [OF step False]
    have "outgoing_deliveries s' d = outgoing_deliveries s1 d" .
    with f log all same1 snap1 show ?thesis
      by (intro exI [of _ "rows @ [NEW]"]) simp
  qed
qed

lemmas insert_defs =
  insert_delivery_location_def update_delivery_current_location_def new_row_def
  coerce_decimal_def coerce_nullable_def round_scale_def

lemma late_retry_run:
  "insert_all example_db late_retry_ops = Inr (projr (insert_all example_db late_retry_ops))"
  by (simp add: late_retry_ops_def example_db_def example_fix_def insert_defs)

lemma gps_run:
  "insert_all example_db gps_ops = Inr (projr (insert_all example_db gps_ops))"
  by (simp add: gps_ops_def example_db_def example_fix_def insert_defs)

lemma in_order_run:
  "insert_all example_db in_order_ops = Inr (projr (insert_all example_db in_order_ops))"
  by (simp add: in_order_ops_def example_db_def example_fix_def insert_defs)

text \<open>
  Claim C2. After N successful inserts of location fixes for one delivery, the five
  snapshot columns of the delivery (\<open>current_latitude\<close>, \<open>current_longitude\<close>,
  \<open>current_speed\<close>, \<open>current_heading\<close>, \<open>last_location_update\<close>) are the corresponding
  fields of the fix inserted last, as the location log holds it (the last row of the log,
  which is the row formed from the Nth insert), whatever the \<open>recorded_at\<close> values of the
  fixes are: the last write wins.
\<close>

theorem snapshot_is_last_inserted_fix:
  assumes "insert_all s ops = Inr s'"
    and "ops \<noteq> []"
    and "\<forall>op \<in> set ops. location_insert.delivery_id (snd op) = d"
  shows "\<exists>NEW row. new_row (fst (last ops)) (snd (last ops)) = Inr NEW
           \<and> last (delivery_locations s') = NEW
           \<and> outgoing_deliveries s' d = Some row
           \<and> current_latitude row = Some (delivery_location.latitude NEW)
           \<and> current_longitude row = Some (delivery_location.longitude NEW)
           \<and> current_speed row = delivery_location.speed NEW
           \<and> current_heading row = delivery_location.heading NEW
           \<and> last_location_update row = Some (delivery_location.recorded_at NEW)"
proof -
  from insert_all_snapshot [OF assms(1), of d] obtain rows where
    log: "delivery_locations s' = delivery_locations s @ rows"
    and all: "list_all2 (\<lambda>op NEW. new_row (fst op) (snd op) = Inr NEW) ops rows"
    and snap: "fixes_for d rows \<noteq> [] \<longrightarrow>
        (\<exists>row. outgoing_deliveries s' d = Some row
           \<and> snapshot_of row = fix_fields (last (fixes_for d rows)))"
    by blast
  from all have len: "length ops = length rows"
    by (rule list_all2_lengthD)
  with assms(2) have ne: "rows \<noteq> []" by auto
  have nth: "new_row (fst (ops ! i)) (snd (ops ! i)) = Inr (rows ! i)" if "i < length rows" for i
    using all that len by (simp add: list_all2_conv_all_nth)
  have "delivery_location.delivery_id NEW = d" if "NEW \<in> set rows" for NEW
  proof -
    from that obtain i where i: "i < length rows" and NEW: "rows ! i = NEW"
      by (auto simp: in_set_conv_nth)
    from i len have "ops ! i \<in> set ops" by simp
    with assms(3) have "location_insert.delivery_id (snd (ops ! i)) = d" by blast
    with new_row_delivery_id [OF nth [OF i]] NEW show ?thesis by simp
  qed
  then have f: "fixes_for d rows = rows"
    by (simp add: fixes_for_def)
  from ne len assms(2) nth [of "length rows - 1"]
  have last_new: "new_row (fst (last ops)) (snd (last ops)) = Inr (last rows)"
    by (simp add: last_conv_nth)
  from log ne have last_log: "last (delivery_locations s') = last rows"
    by simp
  from snap f ne obtain row where "outgoing_deliveries s' d = Some row"
    and "snapshot_of row = fix_fields (last rows)"
    by auto
  with last_new last_log show ?thesis
    by (simp add: snapshot_of_def fix_fields_def)
qed

theorem snapshot_is_last_inserted_fix_witness:
  "\<exists>NEW row. new_row 101 (snd (last gps_ops)) = Inr NEW
     \<and> last (delivery_locations (projr (insert_all example_db gps_ops))) = NEW
     \<and> outgoing_deliveries (projr (insert_all example_db gps_ops)) ''d1'' = Some row
     \<and> delivery_location.latitude NEW = 60.12345679
     \<and> delivery_location.speed NEW = Some 13.89
     \<and> delivery_location.heading NEW = Some 271.13
     \<and> current_latitude row = Some 60.12345679
     \<and> current_longitude row = Some 24.8
     \<and> current_speed row = Some 13.89
     \<and> current_heading row = Some 271.13
     \<and> last_location_update row = Some 40"
proof -
  have ne: "gps_ops \<noteq> []" and d: "\<forall>op \<in> set gps_ops. location_insert.delivery_id (snd op) = ''d1''"
    by (simp_all add: gps_ops_def example_fix_def)
  from snapshot_is_last_inserted_fix [OF gps_run ne d] obtain NEW row where
    new: "new_row (fst (last gps_ops)) (snd (last gps_ops)) = Inr NEW"
    and rest: "last (delivery_locations (projr (insert_all example_db gps_ops))) = NEW"
      "outgoing_deliveries (projr (insert_all example_db gps_ops)) ''d1'' = Some row"
      "current_latitude row = Some (delivery_location.latitude NEW)"
      "current_longitude row = Some (delivery_location.longitude NEW)"
      "current_speed row = delivery_location.speed NEW"
      "current_heading row = delivery_location.heading NEW"
      "last_location_update row = Some (delivery_location.recorded_at NEW)"
    by blast
  have val: "new_row (fst (last gps_ops)) (snd (last gps_ops))
      = Inr \<lparr>delivery_location.delivery_id = ''d1'', driver_id = Some ''drv1'',
             latitude = 60.12345679, longitude = 24.8, accuracy = Some 5, altitude = None,
             speed = Some 13.89, heading = Some 271.13, battery_level = None,
             recorded_at = 40, created_at = 101\<rparr>"
    by (simp add: gps_ops_def example_fix_def new_row_def coerce_decimal_def
        coerce_nullable_def round_scale_def)
  have fst101: "fst (last gps_ops) = 101"
    by (simp add: gps_ops_def)
  from new val have "NEW = \<lparr>delivery_location.delivery_id = ''d1'', driver_id = Some ''drv1'',
             latitude = 60.12345679, longitude = 24.8, accuracy = Some 5, altitude = None,
             speed = Some 13.89, heading = Some 271.13, battery_level = None,
             recorded_at = 40, created_at = 101\<rparr>"
    by simp
  with new rest fst101 show ?thesis
    by (intro exI [of _ NEW] exI [of _ row]) simp
qed

lemma sorted_le_last:
  fixes xs :: "'a::linorder list"
  assumes "sorted xs" and "x \<in> set xs"
  shows "x \<le> last xs"
  using assms
  by (induction xs) (auto split: if_splits)

text \<open>
  The invariant of the data model (claim C1 as it is written) does not survive a late
  retry: the run \<open>late_retry_ops\<close> stores a fix recorded at 50 and then one recorded at
  40, and the snapshot is then that of the fix recorded at 40.
\<close>

theorem late_retry_regresses_snapshot:
  "\<not> isl (insert_all example_db late_retry_ops)
   \<and> map delivery_location.recorded_at
         (delivery_locations (projr (insert_all example_db late_retry_ops))) = [50, 40]
   \<and> map_option last_location_update
         (outgoing_deliveries (projr (insert_all example_db late_retry_ops)) ''d1'')
       = Some (Some 40)
   \<and> \<not> spec_snapshot_is_latest_recorded (projr (insert_all example_db late_retry_ops)) ''d1''"
  by (simp add: late_retry_ops_def example_db_def example_fix_def insert_defs
      spec_snapshot_is_latest_recorded_def snapshot_of_def fix_fields_def fixes_for_def
      example_delivery_def)

text \<open>
  Claim C1, as the trigger supports it. When the fixes logged for a delivery were inserted
  in the order of their \<open>recorded_at\<close> values (as they are when the column is left to
  its default \<open>now()\<close>), a run of successful inserts keeps the invariant: a present
  snapshot is that of a logged fix of the delivery with the greatest \<open>recorded_at\<close>.
\<close>

theorem snapshot_latest_when_inserted_in_recorded_order:
  assumes "spec_snapshot_is_latest_recorded s d"
    and "insert_all s ops = Inr s'"
    and "sorted (map delivery_location.recorded_at (fixes_for d (delivery_locations s')))"
  shows "spec_snapshot_is_latest_recorded s' d"
proof -
  from insert_all_snapshot [OF assms(2), of d] obtain rows where
    log0: "delivery_locations s' = delivery_locations s @ rows"
    and same: "fixes_for d rows = [] \<longrightarrow> outgoing_deliveries s' d = outgoing_deliveries s d"
    and snap0: "fixes_for d rows \<noteq> [] \<longrightarrow>
        (\<exists>row. outgoing_deliveries s' d = Some row
           \<and> snapshot_of row = fix_fields (last (fixes_for d rows)))"
    by blast
  let ?new = "fixes_for d rows"
  let ?old = "fixes_for d (delivery_locations s)"
  have log: "fixes_for d (delivery_locations s') = ?old @ ?new"
    using log0 by simp
  show ?thesis
  proof (cases "?new = []")
    case True
    with same
    have "outgoing_deliveries s' d = outgoing_deliveries s d" by simp
    moreover from log True
    have "fixes_for d (delivery_locations s') = fixes_for d (delivery_locations s)" by simp
    ultimately have "spec_snapshot_is_latest_recorded s' d = spec_snapshot_is_latest_recorded s d"
      unfolding spec_snapshot_is_latest_recorded_def by (simp split: option.splits)
    with assms(1) show ?thesis by simp
  next
    case False
    with snap0
    obtain row where row: "outgoing_deliveries s' d = Some row"
      and snap: "snapshot_of row = fix_fields (last ?new)"
      by auto
    from False log have last: "last (fixes_for d (delivery_locations s')) = last ?new"
      and mem: "last ?new \<in> set (fixes_for d (delivery_locations s'))"
      by simp_all
    have "delivery_location.recorded_at l' \<le> delivery_location.recorded_at (last ?new)"
      if "l' \<in> set (fixes_for d (delivery_locations s'))" for l'
    proof -
      from that have "delivery_location.recorded_at l'
          \<in> set (map delivery_location.recorded_at (fixes_for d (delivery_locations s')))"
        by simp
      from sorted_le_last [OF assms(3) this] False log show ?thesis
        by (simp add: last_map)
    qed
    with row snap mem show ?thesis
      by (auto simp: spec_snapshot_is_latest_recorded_def list_ex_iff list_all_iff)
  qed
qed

theorem snapshot_latest_when_inserted_in_recorded_order_witness:
  "spec_snapshot_is_latest_recorded example_db ''d1''
   \<and> sorted (map delivery_location.recorded_at
        (fixes_for ''d1'' (delivery_locations (projr (insert_all example_db in_order_ops)))))
   \<and> spec_snapshot_is_latest_recorded (projr (insert_all example_db in_order_ops)) ''d1''"
proof -
  have h1: "spec_snapshot_is_latest_recorded example_db ''d1''"
    by (simp add: spec_snapshot_is_latest_recorded_def example_db_def example_delivery_def
        snapshot_of_def)
  have h3: "sorted (map delivery_location.recorded_at
        (fixes_for ''d1'' (delivery_locations (projr (insert_all example_db in_order_ops)))))"
    by (simp add: in_order_ops_def example_db_def example_fix_def insert_defs fixes_for_def)
  from snapshot_latest_when_inserted_in_recorded_order [OF h1 in_order_run h3] h1 h3
  show ?thesis by simp
qed
section \<open>Properties of the ETA estimator\<close>

lemmas distance_defs =
  calculate_distance_km_def Let_def num_add_def num_sub_def num_mul_def num_half_def
  sql_radians_def sql_sin_def sql_cos_def sql_sqrt_def sql_atan2_def f8_mul_def f8_add_def
  assign_decimal_def

text \<open>With four coordinates the distance is computed, unless the Haversine term \<open>a\<close> or
  \<open>1 - a\<close> comes out negative and the square root raises.\<close>

lemma calculate_distance_km_cases:
  "calculate_distance_km fl (Some lat1) (Some lon1) (Some lat2) (Some lon2)
      = Inl NegativeSquareRoot
   \<or> (\<exists>distance_km.
        calculate_distance_km fl (Some lat1) (Some lon1) (Some lat2) (Some lon2)
          = Inr (Some distance_km))"
  by (simp add: distance_defs)

text \<open>A missing coordinate makes the distance \<open>NULL\<close>, in every arithmetic.\<close>

lemma calculate_distance_km_null:
  assumes "lat1 = None \<or> lon1 = None \<or> lat2 = None \<or> lon2 = None"
  shows "calculate_distance_km fl lat1 lon1 lat2 lon2 = Inr None"
  using assms
  unfolding distance_defs
  by (auto split: option.splits)

lemma sin_half_square: "sin (x / 2) * sin (x / 2) = (1 - cos x) / (2::real)"
  using cos_double_sin [of "x / 2"] by (simp add: power2_eq_square)

text \<open>In exact arithmetic the Haversine term \<open>a\<close> lies between 0 and 1 for all angles, so
  there the square roots never raise: the error is one of rounding.\<close>

lemma haversine_range:
  fixes p q y :: real
  defines "a \<equiv> sin ((q - p) / 2) * sin ((q - p) / 2) + cos p * cos q * sin (y / 2) * sin (y / 2)"
  shows "0 \<le> a \<and> a \<le> 1"
proof -
  have s1: "sin ((q - p) / 2) * sin ((q - p) / 2) = (1 - cos (q - p)) / 2"
    by (rule sin_half_square)
  have s2: "sin (y / 2) * sin (y / 2) = (1 - cos y) / 2"
    by (rule sin_half_square)
  define A where "A = sin p * sin q"
  define B where "B = cos p * cos q"
  define t where "t = cos y"
  have ab: "cos (q - p) = A + B"
    by (simp add: A_def B_def cos_diff)
  have "a = sin ((q - p) / 2) * sin ((q - p) / 2) + B * (sin (y / 2) * sin (y / 2))"
    unfolding a_def B_def by (simp add: mult.assoc)
  also have "\<dots> = (1 - (A + B)) / 2 + B * ((1 - t) / 2)"
    unfolding s1 s2 ab t_def ..
  also have "\<dots> = (1 - (A + B * t)) / 2"
    by (simp add: field_simps)
  finally have a_eq: "a = (1 - (A + B * t)) / 2" .
  have t: "-1 \<le> t" "t \<le> 1" by (simp_all add: t_def)
  from ab [symmetric] have ab1: "A + B \<le> 1" "-1 \<le> A + B" by simp_all
  have "A - B = - cos (q + p)" by (simp add: A_def B_def cos_add)
  then have ab2: "A - B \<le> 1" "-1 \<le> A - B" by simp_all
  have "\<bar>B * t\<bar> \<le> \<bar>B\<bar>"
    using t by (simp add: abs_mult mult_left_le)
  then have "- \<bar>B\<bar> \<le> B * t" "B * t \<le> \<bar>B\<bar>" by linarith+
  with ab1 ab2 have "-1 \<le> A + B * t" "A + B * t \<le> 1" by linarith+
  with a_eq show ?thesis by simp
qed

lemma calculate_distance_km_exact:
  "\<exists>distance_km.
     calculate_distance_km exact_arithmetic (Some lat1) (Some lon1) (Some lat2) (Some lon2)
       = Inr (Some distance_km)"
proof -
  define a where "a = sin ((lat2 - lat1) * pi / 180 / 2) * sin ((lat2 - lat1) * pi / 180 / 2)
      + cos (lat1 * pi / 180) * cos (lat2 * pi / 180) * sin ((lon2 - lon1) * pi / 180 / 2)
          * sin ((lon2 - lon1) * pi / 180 / 2)"
  have e: "lat2 * pi / 180 - lat1 * pi / 180 = (lat2 - lat1) * pi / 180"
    by (simp add: algebra_simps diff_divide_distrib)
  have "0 \<le> a \<and> a \<le> 1"
    unfolding a_def
    using haversine_range [of "lat2 * pi / 180" "lat1 * pi / 180" "(lon2 - lon1) * pi / 180",
        unfolded e] .
  then have range: "0 \<le> a" "a \<le> 1" by simp_all
  have "calculate_distance_km exact_arithmetic (Some lat1) (Some lon1) (Some lat2) (Some lon2)
      = Inr (Some (6371 * (2 * atan2 (sqrt a) (sqrt (1 - a)))))"
    using range
    unfolding distance_defs exact_arithmetic_def a_def
    by simp
  then show ?thesis by blast
qed

text \<open>The same point twice is at distance 0.\<close>

lemma calculate_distance_km_same_point:
  "calculate_distance_km exact_arithmetic (Some lat1) (Some lon1) (Some lat1) (Some lon1)
     = Inr (Some 0)"
  by (simp add: distance_defs exact_arithmetic_def atan2_def)

lemma eta_minutes_value:
  "eta_minutes (Some distance_km) v_current_speed =
     Inr (Some ((distance_km
        / ((case v_current_speed of None \<Rightarrow> 8.33 | Some v \<Rightarrow> if v < 1 then 8.33 else v) * 3.6)) * 60))"
  by (auto simp: eta_minutes_def num_div_def num_mul_def Let_def split: option.splits)

lemma eta_minutes_null: "eta_minutes None v_current_speed = Inr None"
  by (auto simp: eta_minutes_def num_div_def num_mul_def Let_def split: option.splits)

text \<open>An error of the distance computation is the error of the estimator.\<close>

lemma estimate_arrival_time_raises:
  assumes "outgoing_deliveries s p_delivery_id = Some od"
    and "current_latitude od = Some lat1" and "current_longitude od = Some lon1"
    and "restaurants s (restaurant_id od) = Some r"
    and "restaurant.latitude r = Some lat2" and "restaurant.longitude r = Some lon2"
    and "calculate_distance_km fl (Some lat1) (Some lon1) (Some lat2) (Some lon2) = Inl e"
  shows "estimate_arrival_time fl now s p_delivery_id = Inl e"
  using assms
  by (simp add: estimate_arrival_time_def)

text \<open>
  Claim C3. For a delivery whose current position and destination are both known and
  whose distance is computed as \<open>distance_km\<close>, the estimator returns \<open>now\<close> plus
  \<open>(distance_km / (speed * 3.6)) * 60\<close> minutes, where the speed is 8.33 when the current
  speed is \<open>NULL\<close> or below 1 and the current speed otherwise; for a distance of 10 km and
  a current speed of 0 the offset is \<open>(10 / (8.33 * 3.6)) * 60\<close>, which is 20.0 minutes to
  one decimal place. This holds in every arithmetic \<open>fl\<close> of the distance computation.
\<close>

theorem estimate_arrival_time_formula:
  assumes "outgoing_deliveries s p_delivery_id = Some od"
    and "current_latitude od = Some lat1" and "current_longitude od = Some lon1"
    and "restaurants s (restaurant_id od) = Some r"
    and "restaurant.latitude r = Some lat2" and "restaurant.longitude r = Some lon2"
    and "calculate_distance_km fl (Some lat1) (Some lon1) (Some lat2) (Some lon2)
           = Inr (Some distance_km)"
  shows "estimate_arrival_time fl now s p_delivery_id
           = Inr (Some (now + (distance_km
                / ((case current_speed od of
                      None \<Rightarrow> 8.33
                    | Some v \<Rightarrow> if v < 1 then 8.33 else v) * 3.6)) * 60))
       \<and> eta_minutes (Some 10) (Some 0) = Inr (Some ((10 / (8.33 * 3.6)) * 60))
       \<and> \<bar>(10 / (8.33 * 3.6)) * 60 - (20::real)\<bar> < 1 / 20"
proof -
  have "estimate_arrival_time fl now s p_delivery_id
      = Inr (Some (now + (distance_km
           / ((case current_speed od of None \<Rightarrow> 8.33 | Some v \<Rightarrow> if v < 1 then 8.33 else v)
                * 3.6)) * 60))"
    using assms
    by (simp add: estimate_arrival_time_def eta_minutes_value num_add_def)
  moreover have "eta_minutes (Some 10) (Some 0) = Inr (Some ((10 / (8.33 * 3.6)) * 60))"
    by (simp add: eta_minutes_value)
  moreover have "\<bar>(10 / (8.33 * 3.6)) * 60 - (20::real)\<bar> < 1 / 20"
    by simp
  ultimately show ?thesis by blast
qed

theorem estimate_arrival_time_formula_witness:
  "calculate_distance_km exact_arithmetic (Some 60.1699) (Some 24.9384) (Some 60.1699)
       (Some 24.9384) = Inr (Some 0)
   \<and> estimate_arrival_time exact_arithmetic 1000 at_destination_db ''d1'' = Inr (Some 1000)
   \<and> (\<exists>distance_km.
        calculate_distance_km exact_arithmetic (Some 60.2) (Some 24.9) (Some 60.1699)
          (Some 24.9384) = Inr (Some distance_km)
        \<and> estimate_arrival_time exact_arithmetic 1000 tracked_db ''d1''
          = Inr (Some (1000 + (distance_km / (8.33 * 3.6)) * 60)))
   \<and> eta_minutes (Some 10) (Some 0) = Inr (Some ((10 / (8.33 * 3.6)) * 60))
   \<and> \<bar>(10 / (8.33 * 3.6)) * 60 - (20::real)\<bar> < 1 / 20"
proof -
  have zero: "calculate_distance_km exact_arithmetic (Some 60.1699) (Some 24.9384)
      (Some 60.1699) (Some 24.9384) = Inr (Some 0)"
    by (simp add: distance_defs exact_arithmetic_def atan2_def)
  obtain distance_km where d:
    "calculate_distance_km exact_arithmetic (Some 60.2) (Some 24.9) (Some 60.1699)
       (Some 24.9384) = Inr (Some distance_km)"
    using calculate_distance_km_exact by blast
  have r: "restaurants at_destination_db (restaurant_id at_destination_delivery)
      = Some \<lparr>restaurant.latitude = Some 60.1699, longitude = Some 24.9384,
           delivery_instructions = None\<rparr>"
    "restaurants tracked_db (restaurant_id tracked_delivery)
      = Some \<lparr>restaurant.latitude = Some 60.1699, longitude = Some 24.9384,
           delivery_instructions = None\<rparr>"
    by (simp_all add: at_destination_db_def at_destination_delivery_def tracked_db_def
        tracked_delivery_def example_db_def example_delivery_def)
  have od: "outgoing_deliveries at_destination_db ''d1'' = Some at_destination_delivery"
    "outgoing_deliveries tracked_db ''d1'' = Some tracked_delivery"
    by (simp_all add: at_destination_db_def tracked_db_def)
  from estimate_arrival_time_formula [OF od(1) _ _ r(1) _ _ zero, of 1000]
    estimate_arrival_time_formula [OF od(2) _ _ r(2) _ _ d, of 1000]
    zero d
  show ?thesis
    by (simp add: at_destination_delivery_def tracked_delivery_def example_delivery_def)
qed

text \<open>
  Claim C4. For a delivery, the estimator returns \<open>NULL\<close> and raises nothing whenever a
  coordinate of either endpoint is missing: the latitude or the longitude of the current
  position, or those of the destination (also when the restaurant row itself is
  missing). The latitudes are tested by the function; a missing longitude makes the
  distance, and with it the result, \<open>NULL\<close>. The function has no other effect. This holds
  in every arithmetic \<open>fl\<close>.
\<close>

theorem estimate_arrival_time_null_when_coordinate_missing:
  assumes "outgoing_deliveries s p_delivery_id = Some od"
    and "current_latitude od = None \<or> current_longitude od = None
         \<or> (case restaurants s (restaurant_id od) of
               None \<Rightarrow> True
             | Some r \<Rightarrow> restaurant.latitude r = None \<or> restaurant.longitude r = None)"
  shows "estimate_arrival_time fl now s p_delivery_id = Inr None"
proof -
  obtain dlat dlon where dest:
    "(case restaurants s (restaurant_id od) of
        None \<Rightarrow> (None, None)
      | Some r \<Rightarrow> (restaurant.latitude r, restaurant.longitude r)) = (dlat, dlon)"
    by (cases "case restaurants s (restaurant_id od) of
        None \<Rightarrow> (None, None)
      | Some r \<Rightarrow> (restaurant.latitude r, restaurant.longitude r)") auto
  with assms(2) have missing:
    "current_latitude od = None \<or> current_longitude od = None \<or> dlat = None \<or> dlon = None"
    by (auto split: option.splits)
  have "calculate_distance_km fl (current_latitude od) (current_longitude od) dlat dlon
      = Inr None"
    using missing by (rule calculate_distance_km_null)
  with assms(1) dest show ?thesis
    by (simp add: estimate_arrival_time_def eta_minutes_null num_add_def)
qed

theorem estimate_arrival_time_null_when_coordinate_missing_witness:
  "outgoing_deliveries no_longitude_db ''d1'' = Some tracked_delivery
   \<and> current_latitude tracked_delivery = Some 60.2
   \<and> current_longitude tracked_delivery = Some 24.9
   \<and> map_option restaurant.latitude (restaurants no_longitude_db (restaurant_id tracked_delivery))
       = Some (Some 60.1699)
   \<and> map_option restaurant.longitude (restaurants no_longitude_db (restaurant_id tracked_delivery))
       = Some None
   \<and> estimate_arrival_time exact_arithmetic 1000 no_longitude_db ''d1'' = Inr None"
  using estimate_arrival_time_null_when_coordinate_missing
      [of no_longitude_db "''d1''" tracked_delivery exact_arithmetic 1000]
  by (simp add: no_longitude_db_def tracked_db_def tracked_delivery_def example_db_def
      example_delivery_def)

section \<open>Properties of the tracker\<close>

lemmas tracker_defs =
  startTracking_def stopTracking_def sendLocationUpdate_def requestPermissions_def
  log_line_def Let_def

text \<open>
  Claim C5. When no session is active, \<open>startTracking(session)\<close> returns false and sends
  no delivery update if the location permission is refused (the tracker, the watchers and
  the background task are as before). If it is granted, the call returns true; it sends
  the update that puts the delivery of the session \<open>in_transit\<close> with the current time as
  \<open>tracking_started_at\<close>; it records the session and starts a foreground watcher (and the
  background task, when that permission is held), so that from then on every location
  callback sends a fix for the delivery. The permission that decides is the foreground
  one, and the answer of the backend to the update does not matter: its error is logged.
\<close>

theorem startTracking_when_idle:
  assumes "\<not> isTracking t"
    and "startTracking a session (t, w) = (r, t', w')"
  shows "(foregroundStatus a \<noteq> granted \<longrightarrow>
            \<not> r \<and> t' = t \<and> backend_calls w' = backend_calls w
            \<and> watchers w' = watchers w \<and> background_task w' = background_task w)
       \<and> (foregroundStatus a = granted \<longrightarrow>
            r \<and> isTracking t' \<and> currentSession t' = Some session
            \<and> backend_calls w' = backend_calls w @
                 [UpdateDelivery (deliveryId session)
                    \<lparr>tracking_status = ''in_transit'',
                     tracking_started_at = Some (clock a),
                     tracking_ended_at = None\<rparr>]
            \<and> foregroundSubscription t' = Some (next_subscription w)
            \<and> watchers w' = watchers w @ [next_subscription w]
            \<and> background_task w' = (backgroundStatusNow a = granted \<or> background_task w)
            \<and> (\<forall>b location.
                  backend_calls (snd (sendLocationUpdate b location (t', w'))) =
                    backend_calls w' @
                      [InsertLocation
                         \<lparr>location_insert.delivery_id = deliveryId session,
                          driver_id = Some (driverId session),
                          latitude = LocationObjectCoords.latitude (coords location),
                          longitude = LocationObjectCoords.longitude (coords location),
                          accuracy = LocationObjectCoords.accuracy (coords location),
                          altitude = None,
                          speed = LocationObjectCoords.speed (coords location),
                          heading = LocationObjectCoords.heading (coords location),
                          battery_level = None,
                          recorded_at = None\<rparr>]))"
  using assms
  by (auto simp: tracker_defs split: option.splits if_splits)

theorem startTracking_when_idle_witness:
  "startTracking (example_answers denied) example_session (initial_tracker, initial_world)
     = (False, initial_tracker,
        initial_world\<lparr>console := [''Foreground location permission denied'']\<rparr>)
   \<and> fst (startTracking (example_answers granted) example_session
             (initial_tracker, initial_world))
   \<and> backend_calls (snd (snd (startTracking (example_answers granted) example_session
        (initial_tracker, initial_world))))
       = [UpdateDelivery ''d1''
            \<lparr>tracking_status = ''in_transit'',
             tracking_started_at = Some ''2026-02-04T10:00:00.000Z'',
             tracking_ended_at = None\<rparr>]
   \<and> watchers (snd (snd (startTracking (example_answers granted) example_session
        (initial_tracker, initial_world)))) = [0]"
proof -
  have idle: "\<not> isTracking initial_tracker"
    by (simp add: initial_tracker_def)
  obtain r1 t1 w1 where
    e1: "startTracking (example_answers denied) example_session
           (initial_tracker, initial_world) = (r1, t1, w1)"
    by (rule prod_cases3)
  obtain r2 t2 w2 where
    e2: "startTracking (example_answers granted) example_session
           (initial_tracker, initial_world) = (r2, t2, w2)"
    by (rule prod_cases3)
  have c: "console w1 = [''Foreground location permission denied'']"
    "next_subscription w1 = 0"
    using e1 by (auto simp: tracker_defs example_answers_def initial_world_def
        initial_tracker_def)
  from startTracking_when_idle [OF idle e1] startTracking_when_idle [OF idle e2] c
  show ?thesis
    unfolding e1 e2
    by (simp add: example_answers_def example_session_def initial_world_def)
qed

text \<open>
  Claim C6. \<open>startTracking\<close> while a session is active returns true and does nothing
  else but log a warning: the tracker is unchanged, no backend call is sent, and no
  watcher or background task is started.
\<close>

theorem startTracking_when_tracking:
  assumes "isTracking t"
    and "startTracking a session (t, w) = (r, t', w')"
  shows "r \<and> t' = t \<and> backend_calls w' = backend_calls w \<and> watchers w' = watchers w
       \<and> next_subscription w' = next_subscription w
       \<and> background_task w' = background_task w"
  using assms
  by (auto simp: tracker_defs)

lemma example_tracking_state:
  "isTracking (fst (run [Start (example_answers granted) example_session]))"
  by (simp add: run_def tracker_defs example_answers_def initial_tracker_def initial_world_def)

theorem startTracking_when_tracking_witness:
  "fst (startTracking (example_answers granted) example_session
          (run [Start (example_answers granted) example_session]))
   \<and> fst (snd (startTracking (example_answers granted) example_session
          (run [Start (example_answers granted) example_session])))
       = fst (run [Start (example_answers granted) example_session])
   \<and> backend_calls (snd (snd (startTracking (example_answers granted) example_session
          (run [Start (example_answers granted) example_session]))))
       = backend_calls (snd (run [Start (example_answers granted) example_session]))
   \<and> watchers (snd (snd (startTracking (example_answers granted) example_session
          (run [Start (example_answers granted) example_session])))) = [0]"
proof -
  obtain t w where tw: "run [Start (example_answers granted) example_session] = (t, w)"
    by (rule prod.exhaust)
  obtain r t' w' where
    e: "startTracking (example_answers granted) example_session (t, w) = (r, t', w')"
    by (rule prod_cases3)
  from example_tracking_state tw have tracking: "isTracking t" by simp
  have "watchers w = [0]"
    using tw by (auto simp: run_def tracker_defs example_answers_def initial_tracker_def
        initial_world_def)
  with startTracking_when_tracking [OF tracking e] show ?thesis
    unfolding tw e by simp
qed

text \<open>
  Claim C7. \<open>stopTracking()\<close> with no active session changes nothing. With an active
  session it removes the foreground watcher of the tracker, unregisters the background
  task, sends the update that marks the delivery of the session \<open>delivered\<close> with the
  current time as \<open>tracking_ended_at\<close>, and clears the session. In both cases a second
  call right after changes nothing.
\<close>

theorem stopTracking_idempotent:
  assumes "stopTracking a (t, w) = (t', w')"
  shows "(\<not> isTracking t \<longrightarrow> t' = t \<and> w' = w)
       \<and> (isTracking t \<longrightarrow>
            currentSession t' = None \<and> \<not> isTracking t' \<and> foregroundSubscription t' = None
            \<and> (\<forall>h. foregroundSubscription t = Some h \<longrightarrow>
                  watchers w' = removeAll h (watchers w))
            \<and> \<not> background_task w'
            \<and> (\<forall>session. currentSession t = Some session \<longrightarrow>
                  backend_calls w' = backend_calls w @
                    [UpdateDelivery (deliveryId session)
                       \<lparr>tracking_status = ''delivered'',
                        tracking_started_at = None,
                        tracking_ended_at = Some (clock a)\<rparr>]))
       \<and> stopTracking b (t', w') = (t', w')"
  using assms
  by (auto simp: tracker_defs split: option.splits if_splits)

theorem stopTracking_idempotent_witness:
  "stopTracking (example_answers granted) (initial_tracker, initial_world)
     = (initial_tracker, initial_world)
   \<and> currentSession (fst (stopTracking (example_answers granted)
        (run [Start (example_answers granted) example_session]))) = None
   \<and> watchers (snd (stopTracking (example_answers granted)
        (run [Start (example_answers granted) example_session]))) = []
   \<and> backend_calls (snd (stopTracking (example_answers granted)
        (run [Start (example_answers granted) example_session])))
       = [UpdateDelivery ''d1''
            \<lparr>tracking_status = ''in_transit'',
             tracking_started_at = Some ''2026-02-04T10:00:00.000Z'',
             tracking_ended_at = None\<rparr>,
          UpdateDelivery ''d1''
            \<lparr>tracking_status = ''delivered'',
             tracking_started_at = None,
             tracking_ended_at = Some ''2026-02-04T10:00:00.000Z''\<rparr>]"
proof -
  obtain t0 w0 where
    e0: "stopTracking (example_answers granted) (initial_tracker, initial_world) = (t0, w0)"
    by (rule prod.exhaust)
  obtain t w where tw: "run [Start (example_answers granted) example_session] = (t, w)"
    by (rule prod.exhaust)
  obtain t' w' where e: "stopTracking (example_answers granted) (t, w) = (t', w')"
    by (rule prod.exhaust)
  have idle: "\<not> isTracking initial_tracker"
    by (simp add: initial_tracker_def)
  from example_tracking_state tw have tracking: "isTracking t" by simp
  have st: "currentSession t = Some example_session" "foregroundSubscription t = Some 0"
    "watchers w = [0]"
    "backend_calls w = [UpdateDelivery ''d1''
            \<lparr>tracking_status = ''in_transit'',
             tracking_started_at = Some ''2026-02-04T10:00:00.000Z'',
             tracking_ended_at = None\<rparr>]"
    using tw by (auto simp: run_def tracker_defs example_answers_def example_session_def
        initial_tracker_def initial_world_def)
  from stopTracking_idempotent [OF e0] stopTracking_idempotent [OF e] idle tracking st
  show ?thesis
    unfolding tw e e0
    by (simp add: example_answers_def example_session_def)
qed

text \<open>
  Claim C10. \<open>sendLocationUpdate\<close> without a current session sends nothing and changes
  nothing; in particular a location callback that fires after \<open>stopTracking\<close> has cleared
  the session is dropped. The function has no failing branch: it returns in every case.
\<close>

theorem sendLocationUpdate_without_session:
  "(currentSession t = None \<longrightarrow> sendLocationUpdate a location (t, w) = (t, w))
   \<and> (isTracking t \<longrightarrow>
        sendLocationUpdate a location (stopTracking b (t, w)) = stopTracking b (t, w))"
  by (auto simp: tracker_defs split: option.splits if_splits)

theorem sendLocationUpdate_without_session_witness:
  "sendLocationUpdate (example_answers granted) example_location
     (initial_tracker, initial_world) = (initial_tracker, initial_world)
   \<and> backend_calls (snd (sendLocationUpdate (example_answers granted) example_location
        (stopTracking (example_answers granted)
          (run [Start (example_answers granted) example_session]))))
     = backend_calls (snd (stopTracking (example_answers granted)
          (run [Start (example_answers granted) example_session])))"
proof -
  obtain t w where tw: "run [Start (example_answers granted) example_session] = (t, w)"
    by (rule prod.exhaust)
  from example_tracking_state tw have tracking: "isTracking t" by simp
  have idle: "currentSession initial_tracker = None"
    by (simp add: initial_tracker_def)
  from sendLocationUpdate_without_session
         [of initial_tracker "example_answers granted" example_location initial_world]
       sendLocationUpdate_without_session
         [of t "example_answers granted" example_location w "example_answers granted"]
       idle tracking
  show ?thesis
    unfolding tw by simp
qed

text \<open>
  Between calls the fields of the tracker agree, and the only foreground watcher is the
  one the tracker holds: a session is set exactly when \<open>isTracking\<close> is, and then exactly
  one sampling loop runs in the foreground.
\<close>

lemma step_consistent:
  assumes "consistent tw"
  shows "consistent (step tw act)"
  using assms
  by (cases tw; cases act)
    (auto simp: consistent_def tracker_defs split: option.splits if_splits)

lemma run_consistent: "consistent (run actions)"
proof (induction actions rule: rev_induct)
  case Nil
  show ?case by (simp add: run_def consistent_def initial_tracker_def initial_world_def)
next
  case (snoc act actions)
  from step_consistent [OF snoc, of act] show ?case
    by (simp add: run_def)
qed

text \<open>So after \<open>stopTracking\<close> no sampling loop is left, whatever happened before.\<close>

lemma stopTracking_halts_sampling:
  "watchers (snd (stopTracking a (run actions))) = []
   \<and> (isTracking (fst (run actions)) \<longrightarrow> \<not> background_task (snd (stopTracking a (run actions))))"
  using run_consistent [of actions]
  by (cases "run actions")
    (auto simp: consistent_def tracker_defs split: option.splits if_splits)

section \<open>Properties of the subscriber and of the tracking status\<close>

lemma subscriber_step_bound:
  assumes "length (locationHistory st) \<le> 100"
  shows "length (locationHistory (subscriber_step deliveryId_opt st ev)) \<le> 100"
proof (cases ev)
  case (Fetched a)
  with assms show ?thesis
    by (auto simp: fetchTrackingData_def fetch_failed_def select_recent_locations_def Let_def
        split: option.splits)
next
  case (LocationInserted newLocation)
  then show ?thesis by (simp add: on_location_insert_def)
next
  case (DeliveryUpdated updated)
  with assms show ?thesis by (simp add: on_delivery_update_def)
next
  case (ChannelStatus status)
  with assms show ?thesis by simp
qed

text \<open>
  Claim C9. The location history of the subscriber never holds more than 100 entries:
  the fetch is limited to the 100 most recent fixes, and every realtime fix is prepended
  and the list cut to 100. This holds after any sequence of fetches, realtime events and
  failures, from the initial state of the hook.
\<close>

theorem location_history_bounded:
  "length (locationHistory (foldl (subscriber_step deliveryId_opt) initial_subscriber events)) \<le> 100"
proof (induction events rule: rev_induct)
  case Nil
  show ?case by (simp add: initial_subscriber_def)
next
  case (snoc ev events)
  from subscriber_step_bound [OF snoc] show ?case by simp
qed

text \<open>The empty string counts as a timestamp that is not set.\<close>

lemma empty_timestamp_is_not_set:
  "getTrackingStatus (Value ''2026-02-04T10:00:00.000Z'') (Value '''') (Value 0.1) = arriving_soon
   \<and> getTrackingStatus (Value '''') Null (Value 0.1) = not_started"
  by (simp add: getTrackingStatus_def truthy_def)

text \<open>
  Claim C8. For all inputs the status is \<open>arrived\<close> whenever \<open>trackingEndedAt\<close> is set,
  whatever the other two are; otherwise \<open>not_started\<close> when \<open>trackingStartedAt\<close> is absent;
  otherwise \<open>arriving_soon\<close> when the distance is known and below 0.5; otherwise
  \<open>tracking\<close>. A timestamp is set when it is a string that is not empty.
\<close>

theorem getTrackingStatus_cases:
  "(trackingEndedAt = Value e \<and> e \<noteq> [] \<longrightarrow>
      getTrackingStatus trackingStartedAt trackingEndedAt distanceKm = arrived)
   \<and> (trackingEndedAt \<in> {Undefined, Null, Value []}
        \<and> trackingStartedAt \<in> {Undefined, Null, Value []} \<longrightarrow>
      getTrackingStatus trackingStartedAt trackingEndedAt distanceKm = not_started)
   \<and> (trackingEndedAt \<in> {Undefined, Null, Value []}
        \<and> trackingStartedAt = Value b \<and> b \<noteq> []
        \<and> distanceKm = Value d \<and> d < 0.5 \<longrightarrow>
      getTrackingStatus trackingStartedAt trackingEndedAt distanceKm = arriving_soon)
   \<and> (trackingEndedAt \<in> {Undefined, Null, Value []}
        \<and> trackingStartedAt = Value b \<and> b \<noteq> []
        \<and> (distanceKm \<in> {Undefined, Null} \<or> distanceKm = Value d \<and> 0.5 \<le> d) \<longrightarrow>
      getTrackingStatus trackingStartedAt trackingEndedAt distanceKm = tracking)"
  by (auto simp: getTrackingStatus_def truthy_def)

theorem getTrackingStatus_cases_witness:
  "getTrackingStatus Null (Value ''2026-02-04T11:00:00.000Z'') (Value 0.1) = arrived
   \<and> getTrackingStatus Undefined Null (Value 0.1) = not_started
   \<and> getTrackingStatus (Value ''2026-02-04T10:00:00.000Z'') Null (Value 0.49) = arriving_soon
   \<and> getTrackingStatus (Value ''2026-02-04T10:00:00.000Z'') Null (Value 0.5) = tracking
   \<and> getTrackingStatus (Value ''2026-02-04T10:00:00.000Z'') Undefined Null = tracking"
  using
    getTrackingStatus_cases [of "Value ''2026-02-04T11:00:00.000Z''"
      "''2026-02-04T11:00:00.000Z''" Null "Value 0.1"]
    getTrackingStatus_cases [of Null "[]" Undefined "Value 0.1"]
    getTrackingStatus_cases [of Null "[]" "Value ''2026-02-04T10:00:00.000Z''"
      "Value 0.49" "''2026-02-04T10:00:00.000Z''" "0.49"]
    getTrackingStatus_cases [of Null "[]" "Value ''2026-02-04T10:00:00.000Z''"
      "Value 0.5" "''2026-02-04T10:00:00.000Z''" "0.5"]
    getTrackingStatus_cases [of Undefined "[]" "Value ''2026-02-04T10:00:00.000Z''"
      Null "''2026-02-04T10:00:00.000Z''" "0"]
  by simp

end
